theory Spec2Isabelle
  imports Complex_Main
begin

section \<open>Python values and builtins\<close>

text \<open>
  The raw values of the integration come out of a JSON payload, so a value is one of
  Python's \<open>None\<close>, \<open>bool\<close>, \<open>int\<close>, \<open>float\<close>, \<open>str\<close>, \<open>list\<close> or \<open>dict\<close>.
  A \<open>float\<close> is the real number it denotes, an infinity or \<open>nan\<close>, the two zeros
  being one value; which reals are doubles, and how arithmetic rounds to them, is left
  to the interpreter. A \<open>dict\<close> lists its items in iteration order.
\<close>

datatype pyfloat = Finite real | PosInf | NegInf | NaN

datatype json =
    JNull
  | JBool bool
  | JInt int
  | JFloat pyfloat
  | JStr string
  | JArr "json list"
  | JObj "(string \<times> json) list"

datatype exn =
    TypeError
  | ValueError
  | ZeroDivisionError
  | OverflowError
  | AttributeError
  | KeyError
  | VictronApiError
  | VictronApiAuthError
  | ConfigEntryAuthFailed
  | UpdateFailed

text \<open>
  The builtins of the interpreter that parse and that round are taken as parameters:
  \<open>int(s)\<close> and \<open>float(s)\<close> on a \<open>str\<close>, where \<open>None\<close> stands for the
  \<open>ValueError\<close> of a string that does not parse; \<open>float(n)\<close> on an \<open>int\<close>, where
  \<open>None\<close> stands for the \<open>OverflowError\<close> of an integer beyond the float range; and
  the product and the quotient of two floats, the latter for a divisor other than zero.
\<close>

record builtins =
  int_str :: "string \<Rightarrow> int option"
  float_str :: "string \<Rightarrow> pyfloat option"
  float_int :: "int \<Rightarrow> pyfloat option"
  float_mul :: "pyfloat \<Rightarrow> pyfloat \<Rightarrow> pyfloat"
  float_div :: "pyfloat \<Rightarrow> pyfloat \<Rightarrow> pyfloat"

fun py_float :: "builtins \<Rightarrow> json \<Rightarrow> exn + pyfloat" where
  "py_float py JNull = Inl TypeError"
| "py_float py (JBool b) = Inr (Finite (if b then 1 else 0))"
| "py_float py (JInt n) = (case float_int py n of None \<Rightarrow> Inl OverflowError | Some r \<Rightarrow> Inr r)"
| "py_float py (JFloat r) = Inr r"
| "py_float py (JStr s) = (case float_str py s of None \<Rightarrow> Inl ValueError | Some r \<Rightarrow> Inr r)"
| "py_float py (JArr xs) = Inl TypeError"
| "py_float py (JObj kvs) = Inl TypeError"

fun py_int :: "builtins \<Rightarrow> json \<Rightarrow> exn + int" where
  "py_int py JNull = Inl TypeError"
| "py_int py (JBool b) = Inr (if b then 1 else 0)"
| "py_int py (JInt n) = Inr n"
| "py_int py (JFloat (Finite r)) = Inr (if 0 \<le> r then \<lfloor>r\<rfloor> else \<lceil>r\<rceil>)"
| "py_int py (JFloat NaN) = Inl ValueError"
| "py_int py (JFloat x) = Inl OverflowError"
| "py_int py (JStr s) = (case int_str py s of None \<Rightarrow> Inl ValueError | Some n \<Rightarrow> Inr n)"
| "py_int py (JArr xs) = Inl TypeError"
| "py_int py (JObj kvs) = Inl TypeError"

text \<open>\<open>v == 0\<close>, as the membership test \<open>v in (None, 0)\<close> evaluates it.\<close>

fun eq_zero :: "json \<Rightarrow> bool" where
  "eq_zero (JBool b) = (\<not> b)"
| "eq_zero (JInt n) = (n = 0)"
| "eq_zero (JFloat x) = (x = Finite 0)"
| "eq_zero v = False"

definition truediv :: "builtins \<Rightarrow> pyfloat \<Rightarrow> pyfloat \<Rightarrow> exn + pyfloat" where
  "truediv py a b = (if b = Finite 0 then Inl ZeroDivisionError else Inr (float_div py a b))"

text \<open>A raw batch is a \<open>dict[int, StateType]\<close>; \<open>dict_get\<close> is \<open>data.get(k)\<close>.\<close>

type_synonym batch = "int \<rightharpoonup> json"

definition dict_get :: "batch \<Rightarrow> int \<Rightarrow> json" where
  "dict_get data k = (case data k of None \<Rightarrow> JNull | Some v \<Rightarrow> v)"

section \<open>sensors.py\<close>

text \<open>
  The descriptor keeps the fields the integration adds to the framework's description
  and the key and name; unit, device class and icon are presentation only. A
  \<open>value_fn\<close> closes over the interpreter, so it takes the builtins first.
\<close>

record VictronSensorEntityDescription =
  key :: string
  name :: string
  attribute_id :: "int option"
  requires :: "int list"
  value_fn :: "(builtins \<Rightarrow> batch \<Rightarrow> exn + json) option"
  available_fn :: "(batch \<Rightarrow> bool) option"

definition BATTERY_STATE_MAP :: "int \<rightharpoonup> string" where
  "BATTERY_STATE_MAP = map_of
     [(0, ''Off''), (2, ''Fault''), (3, ''Bulk''), (4, ''Absorption''), (5, ''Float''),
      (6, ''Storage''), (7, ''Equalize''), (245, ''Off''), (247, ''Equalize''),
      (252, ''Ext. Control'')]"

definition LOAD_STATE_MAP :: "int \<rightharpoonup> string" where
  "LOAD_STATE_MAP = map_of [(0, ''Off''), (1, ''On''), (2, ''Fault'')]"

definition calculate_ratio :: "int \<Rightarrow> int \<Rightarrow> builtins \<Rightarrow> batch \<Rightarrow> exn + json" where
  "calculate_ratio numerator denominator py data =
     (let num = dict_get data numerator; den = dict_get data denominator in
      if num = JNull \<or> den = JNull \<or> eq_zero den then Inr JNull
      else
        (case (case py_float py num of Inl e \<Rightarrow> Inl e
               | Inr a \<Rightarrow> (case py_float py den of Inl e \<Rightarrow> Inl e | Inr b \<Rightarrow> truediv py a b)) of
           Inr r \<Rightarrow> Inr (JFloat r)
         | Inl e \<Rightarrow>
             if e = TypeError \<or> e = ValueError \<or> e = ZeroDivisionError then Inr JNull
             else Inl e))"

definition calculate_product :: "int \<Rightarrow> int \<Rightarrow> builtins \<Rightarrow> batch \<Rightarrow> exn + json" where
  "calculate_product factor_a factor_b py data =
     (let a = dict_get data factor_a; b = dict_get data factor_b in
      if a = JNull \<or> b = JNull then Inr JNull
      else
        (case (case py_float py a of Inl e \<Rightarrow> Inl e
               | Inr x \<Rightarrow> (case py_float py b of Inl e \<Rightarrow> Inl e | Inr y \<Rightarrow> Inr (float_mul py x y))) of
           Inr r \<Rightarrow> Inr (JFloat r)
         | Inl e \<Rightarrow> if e = TypeError \<or> e = ValueError then Inr JNull else Inl e))"

definition map_state :: "(int \<rightharpoonup> string) \<Rightarrow> int \<Rightarrow> builtins \<Rightarrow> batch \<Rightarrow> exn + json" where
  "map_state mapping attr py data =
     (let raw = dict_get data attr in
      if raw = JNull then Inr JNull
      else
        (case py_int py raw of
           Inr i \<Rightarrow> Inr (JStr (case mapping i of None \<Rightarrow> ''Unknown'' | Some label \<Rightarrow> label))
         | Inl e \<Rightarrow> if e = TypeError \<or> e = ValueError then Inr (JStr ''Unknown'') else Inl e))"

definition solar_power :: VictronSensorEntityDescription where
  "solar_power =
     \<lparr>key = ''solar_power'', name = ''Victron Solar Power'', attribute_id = Some 442,
      requires = [], value_fn = None, available_fn = None\<rparr>"

definition solar_voltage :: VictronSensorEntityDescription where
  "solar_voltage =
     \<lparr>key = ''solar_voltage'', name = ''Victron Solar Voltage'', attribute_id = Some 86,
      requires = [], value_fn = None, available_fn = None\<rparr>"

definition solar_current :: VictronSensorEntityDescription where
  "solar_current =
     \<lparr>key = ''solar_current'', name = ''Victron Solar Current'', attribute_id = None,
      requires = [442, 86], value_fn = Some (calculate_ratio 442 86), available_fn = None\<rparr>"

definition battery_current :: VictronSensorEntityDescription where
  "battery_current =
     \<lparr>key = ''battery_current'', name = ''Victron Battery Current'', attribute_id = Some 82,
      requires = [], value_fn = None, available_fn = None\<rparr>"

definition battery_voltage :: VictronSensorEntityDescription where
  "battery_voltage =
     \<lparr>key = ''battery_voltage'', name = ''Victron Battery Voltage'', attribute_id = Some 81,
      requires = [], value_fn = None, available_fn = None\<rparr>"

definition battery_state :: VictronSensorEntityDescription where
  "battery_state =
     \<lparr>key = ''battery_state'', name = ''Victron Battery State'', attribute_id = Some 85,
      requires = [], value_fn = Some (map_state BATTERY_STATE_MAP 85), available_fn = None\<rparr>"

definition battery_power :: VictronSensorEntityDescription where
  "battery_power =
     \<lparr>key = ''battery_power'', name = ''Victron Battery Power'', attribute_id = None,
      requires = [81, 82], value_fn = Some (calculate_product 81 82), available_fn = None\<rparr>"

definition load_current :: VictronSensorEntityDescription where
  "load_current =
     \<lparr>key = ''load_current'', name = ''Victron Load Current'', attribute_id = Some 242,
      requires = [], value_fn = None, available_fn = None\<rparr>"

definition load_state :: VictronSensorEntityDescription where
  "load_state =
     \<lparr>key = ''load_state'', name = ''Victron Load State'', attribute_id = Some 241,
      requires = [], value_fn = Some (map_state LOAD_STATE_MAP 241), available_fn = None\<rparr>"

definition load_power :: VictronSensorEntityDescription where
  "load_power =
     \<lparr>key = ''load_power'', name = ''Victron Load Power'', attribute_id = None,
      requires = [81, 242], value_fn = Some (calculate_product 81 242), available_fn = None\<rparr>"

definition solar_energy_today :: VictronSensorEntityDescription where
  "solar_energy_today =
     \<lparr>key = ''solar_energy_today'', name = ''Victron Solar Energy Today'', attribute_id = Some 94,
      requires = [], value_fn = None, available_fn = None\<rparr>"

definition SENSOR_DESCRIPTIONS :: "VictronSensorEntityDescription list" where
  "SENSOR_DESCRIPTIONS =
     [solar_power, solar_voltage, solar_current, battery_current, battery_voltage,
      battery_state, battery_power, load_current, load_state, load_power,
      solar_energy_today]"

definition SENSOR_MAP :: "string \<rightharpoonup> VictronSensorEntityDescription" where
  "SENSOR_MAP = map_of (rev (map (\<lambda>description. (key description, description)) SENSOR_DESCRIPTIONS))"

definition DEFAULT_SENSOR_KEYS :: "string list" where
  "DEFAULT_SENSOR_KEYS = map key SENSOR_DESCRIPTIONS"

text \<open>
  The two properties of \<open>VictronSensor\<close>. \<open>super_available\<close> is what the framework's
  \<open>CoordinatorEntity.available\<close> returns, the coordinator's \<open>last_update_success\<close>.
\<close>

definition native_value :: "builtins \<Rightarrow> VictronSensorEntityDescription \<Rightarrow> batch \<Rightarrow> exn + json" where
  "native_value py description data =
     (case value_fn description of
        Some f \<Rightarrow> f py data
      | None \<Rightarrow>
          (case attribute_id description of
             None \<Rightarrow> Inr JNull
           | Some a \<Rightarrow> Inr (dict_get data a)))"

definition available :: "bool \<Rightarrow> VictronSensorEntityDescription \<Rightarrow> batch \<Rightarrow> bool" where
  "available super_available description data =
     (case available_fn description of
        Some f \<Rightarrow> f data
      | None \<Rightarrow>
          (case attribute_id description of
             Some a \<Rightarrow> (case data a of None \<Rightarrow> False | Some v \<Rightarrow> v \<noteq> JNull)
           | None \<Rightarrow> super_available))"

section \<open>api.py\<close>

text \<open>
  What the HTTP exchange of one call gives: \<open>session.get(..., raise_for_status=True)\<close>
  followed by \<open>response.json()\<close> either raises a \<open>ClientResponseError\<close> carrying the
  status, raises another \<open>ClientError\<close>, or yields the decoded payload. The request of
  the batch fetch carries the installation in its URL, and the device instance and the
  attribute ids as parameters. An exception from outside the \<open>ClientError\<close> hierarchy
  is caught by none of the methods and is no outcome here.
\<close>

datatype http_result =
    ClientResponseError int
  | ClientError
  | Payload json

record graph_request =
  url_installation :: int
  param_instance :: int
  param_attributeIds :: "int list"

type_synonym session = "graph_request \<Rightarrow> http_result"

text \<open>\<open>v.get(k, default)\<close>: only a \<open>dict\<close> has the method.\<close>

definition obj_get :: "json \<Rightarrow> string \<Rightarrow> json \<Rightarrow> exn + json" where
  "obj_get v k dflt =
     (case v of
        JObj kvs \<Rightarrow> Inr (case map_of kvs k of None \<Rightarrow> dflt | Some x \<Rightarrow> x)
      | _ \<Rightarrow> Inl AttributeError)"

definition raise_for :: "int \<Rightarrow> exn" where
  "raise_for status = (if status = 401 \<or> status = 403 then VictronApiAuthError else VictronApiError)"



text \<open>The body of the extraction loop: the value taken from one series.\<close>

definition latest_value :: "json \<Rightarrow> json" where
  "latest_value values =
     (case values of
        JArr vs \<Rightarrow>
          (if vs \<noteq> [] then
             (case last vs of
                JArr last_entry \<Rightarrow> (if 2 \<le> length last_entry then last_entry ! 1 else JNull)
              | _ \<Rightarrow> JNull)
           else JNull)
      | _ \<Rightarrow> JNull)"

fun latest_values :: "builtins \<Rightarrow> (string \<times> json) list \<Rightarrow> batch \<Rightarrow> batch" where
  "latest_values py [] acc = acc"
| "latest_values py ((attr, values) # items) acc =
     (case int_str py attr of
        None \<Rightarrow> latest_values py items acc
      | Some attribute_key \<Rightarrow>
          latest_values py items (acc(attribute_key \<mapsto> latest_value values)))"

definition async_get_latest_values ::
  "builtins \<Rightarrow> session \<Rightarrow> int \<Rightarrow> int list \<Rightarrow> int \<Rightarrow> exn + batch" where
  "async_get_latest_values py http installation ids inst =
     (case http \<lparr>url_installation = installation, param_instance = inst,
                 param_attributeIds = ids\<rparr> of
        ClientResponseError status \<Rightarrow> Inl (raise_for status)
      | ClientError \<Rightarrow> Inl VictronApiError
      | Payload payload \<Rightarrow>
          (case obj_get payload ''records'' (JObj []) of
             Inl e \<Rightarrow> Inl e
           | Inr (JObj records) \<Rightarrow>
               (case map_of records ''data'' of
                  Some (JObj items) \<Rightarrow> Inr (latest_values py items Map.empty)
                | _ \<Rightarrow> Inl VictronApiError)
           | Inr _ \<Rightarrow> Inl VictronApiError))"

section \<open>__init__.py and coordinator.py\<close>

text \<open>
  The two computations of \<open>async_setup_entry\<close>: the active descriptors of the
  configured keys (\<open>None\<close> when the option is unset), and the attribute ids handed to
  the coordinator.
\<close>

fun subscript_all :: "string list \<Rightarrow> exn + VictronSensorEntityDescription list" where
  "subscript_all [] = Inr []"
| "subscript_all (k # ks) =
     (case SENSOR_MAP k of
        None \<Rightarrow> Inl KeyError
      | Some description \<Rightarrow>
          (case subscript_all ks of Inl e \<Rightarrow> Inl e | Inr ds \<Rightarrow> Inr (description # ds)))"

definition descriptions_of :: "string list option \<Rightarrow> exn + VictronSensorEntityDescription list" where
  "descriptions_of option_sensors =
     (let selected_keys = (case option_sensors of None \<Rightarrow> DEFAULT_SENSOR_KEYS | Some ks \<Rightarrow> ks) in
      case List.map_filter SENSOR_MAP selected_keys of
        [] \<Rightarrow> subscript_all DEFAULT_SENSOR_KEYS
      | d # ds \<Rightarrow> Inr (d # ds))"

definition attribute_ids_of :: "VictronSensorEntityDescription list \<Rightarrow> int list" where
  "attribute_ids_of descriptions =
     sorted_list_of_set
       (set (List.map_filter attribute_id descriptions @ concat (map requires descriptions)))"

record VictronDataUpdateCoordinator =
  installation_id :: int
  device_instance :: int
  attribute_ids :: "int list"
  data :: "batch option"
  last_update_success :: bool

record config_entry =
  CONF_INSTALLATION_ID :: int
  CONF_DEVICE_INSTANCE :: "int option"
  CONF_SENSORS :: "string list option"

text \<open>The coordinator \<open>async_setup_entry\<close> builds, before its first refresh.\<close>

definition setup_coordinator :: "config_entry \<Rightarrow> exn + VictronDataUpdateCoordinator" where
  "setup_coordinator entry =
     (case descriptions_of (CONF_SENSORS entry) of
        Inl e \<Rightarrow> Inl e
      | Inr descriptions \<Rightarrow>
          Inr \<lparr>installation_id = CONF_INSTALLATION_ID entry,
               device_instance = (case CONF_DEVICE_INSTANCE entry of None \<Rightarrow> 0 | Some i \<Rightarrow> i),
               attribute_ids = attribute_ids_of descriptions,
               data = None, last_update_success = True\<rparr>)"

definition async_update_data ::
  "builtins \<Rightarrow> session \<Rightarrow> VictronDataUpdateCoordinator \<Rightarrow> exn + batch" where
  "async_update_data py http c =
     (case async_get_latest_values py http (installation_id c) (attribute_ids c)
             (device_instance c) of
        Inr values \<Rightarrow> Inr values
      | Inl e \<Rightarrow>
          if e = VictronApiAuthError then Inl ConfigEntryAuthFailed
          else if e = VictronApiError then Inl UpdateFailed
          else Inl e)"

text \<open>How one refresh cycle ends.\<close>

datatype cycle = Ready | Failed | ReauthRequired

text \<open>
  Modelled from the spec: the refresh cycle of the base class \<open>DataUpdateCoordinator\<close>,
  which belongs to the framework and is not among the sources. Section 4.3 of the
  specification gives it: on success the cached batch is replaced and the cycle ends
  \<open>Ready\<close>; on an authentication failure an error requiring re-authentication is
  surfaced; on any other failure the previous snapshot is kept and the cycle ends
  \<open>Failed\<close>.
\<close>

definition refresh ::
  "builtins \<Rightarrow> session \<Rightarrow> VictronDataUpdateCoordinator \<Rightarrow> VictronDataUpdateCoordinator \<times> cycle" where
  "refresh py http c =
     (case async_update_data py http c of
        Inr values \<Rightarrow> (c\<lparr>data := Some values, last_update_success := True\<rparr>, Ready)
      | Inl e \<Rightarrow>
          (c\<lparr>last_update_success := False\<rparr>,
           if e = ConfigEntryAuthFailed then ReauthRequired else Failed))"

text \<open>
  Modelled from the spec: the schedule of the same base class, one refresh cycle per
  tick of the poll interval, ending with the cycle that requires re-authentication, after
  which none is scheduled; the list gives what the remote side answers at each tick.
\<close>

fun ticks ::
  "builtins \<Rightarrow> session list \<Rightarrow> VictronDataUpdateCoordinator \<Rightarrow> VictronDataUpdateCoordinator \<times> cycle list" where
  "ticks py [] c = (c, [])"
| "ticks py (http # rest) c =
     (case refresh py http c of
        (c', r) \<Rightarrow>
          if r = ReauthRequired then (c', [r])
          else (case ticks py rest c' of (c'', rs) \<Rightarrow> (c'', r # rs)))"

section \<open>Examples\<close>

text \<open>
  The builtins at the inputs the examples use. The strings \<open>"81"\<close>, \<open>"86"\<close> and
  \<open>"442"\<close> parse as the numbers they spell, and \<open>"abc"\<close> and \<open>"note"\<close> parse neither
  as an \<open>int\<close> nor as a \<open>float\<close>. \<open>float(n)\<close> raises \<open>OverflowError\<close> when \<open>n\<close>
  rounds beyond the largest double, that is from \<open>2 ^ 1024 - 2 ^ 970\<close> on, and is exact
  up to \<open>2 ^ 53\<close>. The product and the quotient are exact when the exact result is a
  double, as for \<open>12.5 * 4\<close>. Rounding, which the examples do not meet, is not in
  these definitions.
\<close>

definition float_overflows :: "int \<Rightarrow> bool" where
  "float_overflows n \<longleftrightarrow> 2 ^ 1024 - 2 ^ 970 \<le> \<bar>n\<bar>"

fun exact_mul :: "pyfloat \<Rightarrow> pyfloat \<Rightarrow> pyfloat" where
  "exact_mul (Finite a) (Finite b) = Finite (a * b)"
| "exact_mul x y = NaN"

fun exact_div :: "pyfloat \<Rightarrow> pyfloat \<Rightarrow> pyfloat" where
  "exact_div (Finite a) (Finite b) = Finite (a / b)"
| "exact_div x y = NaN"

definition example_builtins :: builtins where
  "example_builtins =
     \<lparr>int_str = map_of [(''81'', 81), (''86'', 86), (''442'', 442)],
      float_str = map_of [(''81'', Finite 81), (''86'', Finite 86), (''442'', Finite 442)],
      float_int = (\<lambda>n. if float_overflows n then None else Some (Finite (real_of_int n))),
      float_mul = exact_mul,
      float_div = exact_div\<rparr>"

text \<open>A coordinator that holds a snapshot of an earlier fetch.\<close>

definition example_coordinator :: VictronDataUpdateCoordinator where
  "example_coordinator =
     \<lparr>installation_id = 12345, device_instance = 0, attribute_ids = [81, 82],
      data = Some [81 \<mapsto> JFloat (Finite 12.6), 82 \<mapsto> JFloat (Finite 5)], last_update_success = True\<rparr>"

text \<open>
  The data mapping of a batch-fetch payload whose envelope is well shaped: a \<open>dict\<close>
  whose \<open>records\<close> is a \<open>dict\<close> whose \<open>data\<close> is a \<open>dict\<close>.
\<close>

definition data_of :: "json \<Rightarrow> (string \<times> json) list option" where
  "data_of payload =
     (case payload of
        JObj kvs \<Rightarrow>
          (case map_of kvs ''records'' of
             Some (JObj records) \<Rightarrow>
               (case map_of records ''data'' of Some (JObj items) \<Rightarrow> Some items | _ \<Rightarrow> None)
           | _ \<Rightarrow> None)
      | _ \<Rightarrow> None)"

text \<open>
  The inputs on which \<open>float\<close> does not overflow, and those it rejects with one of the
  errors that the derivations catch.
\<close>

definition in_float_range :: "builtins \<Rightarrow> json \<Rightarrow> bool" where
  "in_float_range py v \<longleftrightarrow> py_float py v \<noteq> Inl OverflowError"

definition mismatched :: "builtins \<Rightarrow> json \<Rightarrow> bool" where
  "mismatched py v \<longleftrightarrow> py_float py v = Inl TypeError \<or> py_float py v = Inl ValueError"

section \<open>Auxiliary facts\<close>

lemmas description_defs =
  solar_power_def solar_voltage_def solar_current_def battery_current_def battery_voltage_def
  battery_state_def battery_power_def load_current_def load_state_def load_power_def
  solar_energy_today_def

lemma py_float_cases:
  "in_float_range py v \<Longrightarrow> (\<exists>r. py_float py v = Inr r) \<or> mismatched py v"
  by (cases v) (auto simp: in_float_range_def mismatched_def split: option.splits)

text \<open>
  An \<open>int\<close> beyond the float range makes the product raise as well: \<open>OverflowError\<close>
  is not among the exceptions it catches.
\<close>

lemma calculate_product_overflow:
  "float_int py (10 ^ 400) = None \<Longrightarrow>
   calculate_product 81 82 py [81 \<mapsto> JInt (10 ^ 400), 82 \<mapsto> JInt 1] = Inl OverflowError"
  by (simp add: calculate_product_def dict_get_def)

subsection \<open>The extraction loop\<close>

lemma latest_values_append:
  "latest_values py (xs @ ys) acc = latest_values py ys (latest_values py xs acc)"
  by (induction xs arbitrary: acc) (auto split: option.splits)

lemma latest_values_other:
  "\<forall>(k, s) \<in> set items. int_str py k \<noteq> Some i \<Longrightarrow> latest_values py items acc i = acc i"
  by (induction items arbitrary: acc) (auto split: option.splits)

lemma latest_values_dom:
  "dom (latest_values py items acc) =
     dom acc \<union> {i. \<exists>(k, s) \<in> set items. int_str py k = Some i}"
proof (induction items arbitrary: acc)
  case Nil
  show ?case by simp
next
  case (Cons a items)
  obtain k s where a: "a = (k, s)" by (cases a)
  show ?case
  proof (cases "int_str py k")
    case None
    then show ?thesis unfolding a by (simp add: Cons.IH)
  next
    case (Some j)
    then have "dom (latest_values py (a # items) acc) =
        dom (acc(j \<mapsto> latest_value s)) \<union> {i. \<exists>(k, s) \<in> set items. int_str py k = Some i}"
      unfolding a by (simp only: latest_values.simps option.case Cons.IH)
    also have "\<dots> = dom acc \<union> {i. \<exists>(k, s) \<in> set (a # items). int_str py k = Some i}"
      using Some unfolding a by auto
    finally show ?thesis .
  qed
qed

lemma latest_values_at:
  assumes "int_str py k = Some i" and "\<forall>(k', s') \<in> set rest. int_str py k' \<noteq> Some i"
  shows "latest_values py (pre @ (k, series) # rest) acc i = Some (latest_value series)"
  using assms by (simp add: latest_values_append latest_values_other)

lemma fetch_data_of:
  assumes "http \<lparr>url_installation = inst, param_instance = di, param_attributeIds = ids\<rparr>
             = Payload payload"
    and "data_of payload = Some items"
  shows "async_get_latest_values py http inst ids di = Inr (latest_values py items Map.empty)"
  using assms
  by (auto simp: async_get_latest_values_def data_of_def obj_get_def
      split: json.splits option.splits)

lemma latest_value_null:
  "vs \<noteq> [] \<Longrightarrow> \<not> (\<exists>e. last vs = JArr e \<and> 2 \<le> length e) \<Longrightarrow> latest_value (JArr vs) = JNull"
  by (auto simp: latest_value_def split: json.splits)

subsection \<open>The catalog\<close>

lemma SENSOR_MAP_eq: "SENSOR_MAP = map_of (map (\<lambda>d. (key d, d)) SENSOR_DESCRIPTIONS)"
  by (simp add: SENSOR_MAP_def SENSOR_DESCRIPTIONS_def fun_eq_iff description_defs)

lemma SENSOR_MAP_key: "SENSOR_MAP k = Some d \<Longrightarrow> key d = k"
  unfolding SENSOR_MAP_eq by (auto dest!: map_of_SomeD)

lemma SENSOR_MAP_dom: "dom SENSOR_MAP = set DEFAULT_SENSOR_KEYS"
  unfolding SENSOR_MAP_eq DEFAULT_SENSOR_KEYS_def
  by (simp add: dom_map_of_conv_image_fst image_image)

lemma subscript_default: "subscript_all DEFAULT_SENSOR_KEYS = Inr SENSOR_DESCRIPTIONS"
  by (simp add: DEFAULT_SENSOR_KEYS_def SENSOR_DESCRIPTIONS_def SENSOR_MAP_def description_defs)

lemma map_filter_default: "List.map_filter SENSOR_MAP DEFAULT_SENSOR_KEYS = SENSOR_DESCRIPTIONS"
  by (simp add: DEFAULT_SENSOR_KEYS_def SENSOR_DESCRIPTIONS_def SENSOR_MAP_def description_defs
      List.map_filter_simps)

lemma map_filter_Nil_iff: "List.map_filter f xs = [] \<longleftrightarrow> (\<forall>x \<in> set xs. f x = None)"
  by (induction xs) (auto simp: List.map_filter_simps split: option.splits)

lemma set_map_filter: "set (List.map_filter f xs) = {y. \<exists>x \<in> set xs. f x = Some y}"
  by (induction xs) (auto simp: List.map_filter_simps split: option.splits)

lemma map_key_map_filter:
  "map key (List.map_filter SENSOR_MAP ks) = filter (\<lambda>k. k \<in> set DEFAULT_SENSOR_KEYS) ks"
proof (induction ks)
  case Nil
  show ?case by (simp add: List.map_filter_simps)
next
  case (Cons k ks)
  show ?case
  proof (cases "SENSOR_MAP k")
    case None
    then have "k \<notin> set DEFAULT_SENSOR_KEYS" using SENSOR_MAP_dom by blast
    with None Cons show ?thesis by (simp add: List.map_filter_simps)
  next
    case (Some d)
    then have "k \<in> set DEFAULT_SENSOR_KEYS" using SENSOR_MAP_dom by blast
    with Some Cons SENSOR_MAP_key [OF Some] show ?thesis by (simp add: List.map_filter_simps)
  qed
qed

lemma descriptions_of_eq:
  "descriptions_of opt =
     Inr (let ds = List.map_filter SENSOR_MAP
                     (case opt of None \<Rightarrow> DEFAULT_SENSOR_KEYS | Some ks \<Rightarrow> ks)
          in if ds = [] then SENSOR_DESCRIPTIONS else ds)"
  by (simp add: descriptions_of_def Let_def subscript_default split: list.splits)

lemma attribute_ids_of_sort:
  "attribute_ids_of ds =
     sort (remdups (List.map_filter attribute_id ds @ concat (map requires ds)))"
  unfolding attribute_ids_of_def by (rule sorted_list_of_set_sort_remdups)

section \<open>Availability and values of the metrics\<close>

text \<open>
  Claim C1 as stated fails. After a successful fetch of the batch \<open>{81: 12.6, 82: 5.0}\<close>
  the inherited availability is true, so \<open>solar_current\<close> is available although its
  derivation returns null (attributes 442 and 86 are absent).
\<close>

theorem derived_available_counterexample:
  "available True solar_current [81 \<mapsto> JFloat (Finite 12.6), 82 \<mapsto> JFloat (Finite 5)] \<and>
   native_value example_builtins solar_current [81 \<mapsto> JFloat (Finite 12.6), 82 \<mapsto> JFloat (Finite 5)] = Inr JNull"
  by (simp add: available_def native_value_def solar_current_def calculate_ratio_def dict_get_def)

text \<open>
  Claim C1, amended. For every descriptor without an attribute id and without an
  availability function, as the derived metrics \<open>solar_current\<close>, \<open>battery_power\<close> and
  \<open>load_power\<close> are, and for every raw batch, the availability is the one inherited from
  the coordinator entity, whatever the derivation returns. In particular, with attribute
  86 absent from the batch, the value of \<open>solar_current\<close> is null and its availability
  is still the inherited one.
\<close>

theorem derived_available_inherited:
  "(attribute_id d = None \<and> available_fn d = None \<longrightarrow> available up d B = up) \<and>
   (d = solar_current \<or> d = battery_power \<or> d = load_power \<longrightarrow>
      attribute_id d = None \<and> available_fn d = None \<and> value_fn d \<noteq> None) \<and>
   (B 86 = None \<longrightarrow>
      native_value py solar_current B = Inr JNull \<and> available up solar_current B = up)"
  by (auto simp: available_def native_value_def solar_current_def battery_power_def
      load_power_def calculate_ratio_def dict_get_def)

theorem derived_available_inherited_witness:
  "attribute_id solar_current = None \<and> available_fn solar_current = None \<and>
   [81 \<mapsto> JFloat (Finite 12.6), 82 \<mapsto> JFloat (Finite 5)] (86::int) = None \<and>
   available False solar_current [81 \<mapsto> JFloat (Finite 12.6), 82 \<mapsto> JFloat (Finite 5)] = False \<and>
   native_value example_builtins solar_current [81 \<mapsto> JFloat (Finite 12.6), 82 \<mapsto> JFloat (Finite 5)] =
     Inr JNull"
  using derived_available_inherited
    [of solar_current False "[81 \<mapsto> JFloat (Finite 12.6), 82 \<mapsto> JFloat (Finite 5)]" example_builtins]
  by (simp add: solar_current_def)

text \<open>
  Claim C2. The ratio is guarded against every failure of the conversion and of the
  division but one: when \<open>float\<close> overflows on the numerator, an integer beyond the
  float range, and the denominator is neither null nor zero, the \<open>OverflowError\<close> is
  not caught and the computation raises, where the claim has it never raise. So it does
  on the batch \<open>{442: 10 ** 400, 86: 1}\<close>.
\<close>

theorem calculate_ratio_raises:
  assumes "py_float py (dict_get B n) = Inl OverflowError"
    and "dict_get B d \<noteq> JNull" and "\<not> eq_zero (dict_get B d)"
  shows "calculate_ratio n d py B = Inl OverflowError"
  using assms by (auto simp: calculate_ratio_def Let_def)

theorem calculate_ratio_raises_witness:
  "py_float example_builtins (dict_get [442 \<mapsto> JInt (10 ^ 400), 86 \<mapsto> JInt 1] 442) =
     Inl OverflowError \<and>
   dict_get [442 \<mapsto> JInt (10 ^ 400), 86 \<mapsto> JInt 1] 86 \<noteq> JNull \<and>
   \<not> eq_zero (dict_get [442 \<mapsto> JInt (10 ^ 400), 86 \<mapsto> JInt 1] 86) \<and>
   calculate_ratio 442 86 example_builtins [442 \<mapsto> JInt (10 ^ 400), 86 \<mapsto> JInt 1] =
     Inl OverflowError"
proof -
  have h: "py_float example_builtins (dict_get [442 \<mapsto> JInt (10 ^ 400), 86 \<mapsto> JInt 1] 442) =
      Inl OverflowError"
    "dict_get [442 \<mapsto> JInt (10 ^ 400), 86 \<mapsto> JInt 1] 86 \<noteq> JNull"
    "\<not> eq_zero (dict_get [442 \<mapsto> JInt (10 ^ 400), 86 \<mapsto> JInt 1] 86)"
    by (simp_all add: dict_get_def example_builtins_def float_overflows_def)
  from h calculate_ratio_raises [OF h] show ?thesis by blast
qed

text \<open>
  Claim C3 as stated fails. A string that is no number is not null, and the product
  over it is null.
\<close>

theorem calculate_product_null_counterexample:
  "calculate_product 81 82 example_builtins [81 \<mapsto> JStr ''abc'', 82 \<mapsto> JInt 5] = Inr JNull \<and>
   dict_get [81 \<mapsto> JStr ''abc'', 82 \<mapsto> JInt 5] 81 \<noteq> JNull \<and>
   dict_get [81 \<mapsto> JStr ''abc'', 82 \<mapsto> JInt 5] 82 \<noteq> JNull"
  by (simp add: calculate_product_def dict_get_def example_builtins_def)

text \<open>
  Claim C3, amended. For every raw batch whose values at the two factors are no
  integers beyond the float range: the product is null if and only if one of the two is
  null or does not convert to a float (a string that is no number, a list, a dict);
  otherwise it is the float product of the two, both converted to float; and the
  computation does not raise.
\<close>

theorem calculate_product_value:
  assumes "in_float_range py (dict_get B fa)" and "in_float_range py (dict_get B fb)"
  shows "(calculate_product fa fb py B = Inr JNull \<longleftrightarrow>
            dict_get B fa = JNull \<or> dict_get B fb = JNull \<or>
            mismatched py (dict_get B fa) \<or> mismatched py (dict_get B fb)) \<and>
         (py_float py (dict_get B fa) = Inr x \<and> py_float py (dict_get B fb) = Inr y \<longrightarrow>
            calculate_product fa fb py B = Inr (JFloat (float_mul py x y))) \<and>
         (\<exists>v. calculate_product fa fb py B = Inr v)"
proof -
  from py_float_cases [OF assms(1)] py_float_cases [OF assms(2)]
  show ?thesis
    by (auto simp: calculate_product_def Let_def mismatched_def)
qed

theorem calculate_product_value_witness:
  "in_float_range example_builtins (dict_get [81 \<mapsto> JFloat (Finite 12.5), 82 \<mapsto> JInt 4] 81) \<and>
   in_float_range example_builtins (dict_get [81 \<mapsto> JFloat (Finite 12.5), 82 \<mapsto> JInt 4] 82) \<and>
   py_float example_builtins (dict_get [81 \<mapsto> JFloat (Finite 12.5), 82 \<mapsto> JInt 4] 81) =
     Inr (Finite 12.5) \<and>
   py_float example_builtins (dict_get [81 \<mapsto> JFloat (Finite 12.5), 82 \<mapsto> JInt 4] 82) =
     Inr (Finite 4) \<and>
   calculate_product 81 82 example_builtins [81 \<mapsto> JFloat (Finite 12.5), 82 \<mapsto> JInt 4] =
     Inr (JFloat (Finite 50))"
proof -
  have f: "py_float example_builtins (dict_get [81 \<mapsto> JFloat (Finite 12.5), 82 \<mapsto> JInt 4] 81) =
      Inr (Finite 12.5)"
    "py_float example_builtins (dict_get [81 \<mapsto> JFloat (Finite 12.5), 82 \<mapsto> JInt 4] 82) =
      Inr (Finite 4)"
    by (simp_all add: dict_get_def example_builtins_def float_overflows_def)
  then have r: "in_float_range example_builtins (dict_get [81 \<mapsto> JFloat (Finite 12.5), 82 \<mapsto> JInt 4] 81)"
    "in_float_range example_builtins (dict_get [81 \<mapsto> JFloat (Finite 12.5), 82 \<mapsto> JInt 4] 82)"
    by (simp_all add: in_float_range_def)
  have m: "float_mul example_builtins (Finite 12.5) (Finite 4) = Finite 50"
    by (simp add: example_builtins_def)
  from calculate_product_value [OF r, of "Finite 12.5" "Finite 4"] f
  have "calculate_product 81 82 example_builtins [81 \<mapsto> JFloat (Finite 12.5), 82 \<mapsto> JInt 4] =
      Inr (JFloat (float_mul example_builtins (Finite 12.5) (Finite 4)))"
    by blast
  with f r m show ?thesis by simp
qed

text \<open>
  Claim C4. For the battery-state descriptor, attribute 85 with the battery state table,
  a raw value of 3 yields the label Bulk, a raw value of 999, which the table does not
  hold, yields the label Unknown, and a null or absent raw value yields null.
\<close>

theorem battery_state_labels:
  "value_fn battery_state = Some (map_state BATTERY_STATE_MAP 85) \<and>
   native_value py battery_state (B(85 \<mapsto> JInt 3)) = Inr (JStr ''Bulk'') \<and>
   native_value py battery_state (B(85 \<mapsto> JInt 999)) = Inr (JStr ''Unknown'') \<and>
   native_value py battery_state (B(85 \<mapsto> JNull)) = Inr JNull \<and>
   native_value py battery_state (B(85 := None)) = Inr JNull"
  by (simp add: native_value_def battery_state_def map_state_def dict_get_def
      BATTERY_STATE_MAP_def)

section \<open>The batch fetch\<close>

text \<open>
  Claim C5. For every attribute series of a batch-fetch response, the extracted value is
  the value component of the last element of the series, wherever the largest timestamp
  stands: the batch maps the attribute to \<open>latest_value\<close> of its series, which for
  \<open>[[t1, v1], [t2, v2], [t3, v3]]\<close> is \<open>v3\<close>; for an empty series the attribute maps to
  null, and an attribute with no series reads as null. The series of an attribute is the
  item of the data mapping whose key parses to the attribute id (the last one, should
  several keys parse to the same id).
\<close>

theorem latest_values_last_entry:
  assumes "http \<lparr>url_installation = inst, param_instance = di, param_attributeIds = ids\<rparr>
             = Payload payload"
    and "data_of payload = Some items"
  shows "\<exists>b. async_get_latest_values py http inst ids di = Inr b \<and>
           (items = pre @ (k, series) # rest \<and> int_str py k = Some i \<and>
              (\<forall>(k', s') \<in> set rest. int_str py k' \<noteq> Some i) \<longrightarrow>
              b i = Some (latest_value series)) \<and>
           ((\<forall>(k', s') \<in> set items. int_str py k' \<noteq> Some j) \<longrightarrow> dict_get b j = JNull) \<and>
           latest_value (JArr (vs @ [JArr (t # v # es)])) = v \<and>
           latest_value (JArr [JArr [t1, v1], JArr [t2, v2], JArr [t3, v3]]) = v3 \<and>
           latest_value (JArr []) = JNull"
proof -
  let ?b = "latest_values py items Map.empty"
  have "async_get_latest_values py http inst ids di = Inr ?b"
    using assms by (rule fetch_data_of)
  moreover have "?b i = Some (latest_value series)"
    if "items = pre @ (k, series) # rest" "int_str py k = Some i"
      "\<forall>(k', s') \<in> set rest. int_str py k' \<noteq> Some i"
    using that by (simp add: latest_values_at)
  moreover have "dict_get ?b j = JNull" if "\<forall>(k', s') \<in> set items. int_str py k' \<noteq> Some j"
    using that by (simp add: dict_get_def latest_values_other)
  moreover have "latest_value (JArr (vs @ [JArr (t # v # es)])) = v"
    "latest_value (JArr [JArr [t1, v1], JArr [t2, v2], JArr [t3, v3]]) = v3"
    "latest_value (JArr []) = JNull"
    by (simp_all add: latest_value_def)
  ultimately show ?thesis by blast
qed

theorem latest_values_last_entry_witness:
  "data_of (JObj [(''success'', JBool True), (''records'', JObj [(''data'', JObj
       [(''442'', JArr [JArr [JInt 30, JFloat (Finite 5)], JArr [JInt 10, JFloat (Finite 7)], JArr [JInt 20, JInt 9]]),
        (''86'', JArr [])])])])
     = Some [(''442'', JArr [JArr [JInt 30, JFloat (Finite 5)], JArr [JInt 10, JFloat (Finite 7)], JArr [JInt 20, JInt 9]]),
             (''86'', JArr [])] \<and>
   (\<exists>b. async_get_latest_values example_builtins
          (\<lambda>request. Payload (JObj [(''success'', JBool True), (''records'', JObj [(''data'', JObj
             [(''442'', JArr [JArr [JInt 30, JFloat (Finite 5)], JArr [JInt 10, JFloat (Finite 7)], JArr [JInt 20, JInt 9]]),
              (''86'', JArr [])])])]))
          12345 [86, 442] 0 = Inr b \<and>
        b 442 = Some (JInt 9) \<and> dict_get b 81 = JNull)"
  using latest_values_last_entry
    [of "\<lambda>request. Payload (JObj [(''success'', JBool True), (''records'', JObj [(''data'', JObj
             [(''442'', JArr [JArr [JInt 30, JFloat (Finite 5)], JArr [JInt 10, JFloat (Finite 7)], JArr [JInt 20, JInt 9]]),
              (''86'', JArr [])])])])"
        12345 0 "[86, 442]" _
        "[(''442'', JArr [JArr [JInt 30, JFloat (Finite 5)], JArr [JInt 10, JFloat (Finite 7)], JArr [JInt 20, JInt 9]]),
          (''86'', JArr [])]"
        example_builtins "[]" "''442''"
        "JArr [JArr [JInt 30, JFloat (Finite 5)], JArr [JInt 10, JFloat (Finite 7)], JArr [JInt 20, JInt 9]]"
        "[(''86'', JArr [])]" 442 81]
  by (simp add: data_of_def example_builtins_def latest_value_def)

text \<open>
  Claim C10. Over a well-shaped response envelope the extraction is total: whatever the
  shape of the entries of the data mapping, it returns a batch and raises nothing; the
  keys of the batch are the integers that the keys of the mapping parse to, so a key
  that does not parse is skipped; and a series whose last entry is not a list of at
  least two elements maps its attribute to null.
\<close>

theorem extraction_total:
  assumes "http \<lparr>url_installation = inst, param_instance = di, param_attributeIds = ids\<rparr>
             = Payload payload"
    and "data_of payload = Some items"
  shows "\<exists>b. async_get_latest_values py http inst ids di = Inr b \<and>
           dom b = {i. \<exists>(k, s) \<in> set items. int_str py k = Some i} \<and>
           (items = pre @ (k, JArr vs) # rest \<and> int_str py k = Some i \<and>
              (\<forall>(k', s') \<in> set rest. int_str py k' \<noteq> Some i) \<and>
              vs \<noteq> [] \<and> \<not> (\<exists>e. last vs = JArr e \<and> 2 \<le> length e) \<longrightarrow>
              b i = Some JNull)"
proof -
  let ?b = "latest_values py items Map.empty"
  have "async_get_latest_values py http inst ids di = Inr ?b"
    using assms by (rule fetch_data_of)
  moreover have "dom ?b = {i. \<exists>(k, s) \<in> set items. int_str py k = Some i}"
    by (simp add: latest_values_dom)
  moreover have "?b i = Some JNull"
    if "items = pre @ (k, JArr vs) # rest" "int_str py k = Some i"
      "\<forall>(k', s') \<in> set rest. int_str py k' \<noteq> Some i"
      "vs \<noteq> []" "\<not> (\<exists>e. last vs = JArr e \<and> 2 \<le> length e)"
    using that by (simp add: latest_values_at latest_value_null)
  ultimately show ?thesis by blast
qed

theorem extraction_total_witness:
  "data_of (JObj [(''records'', JObj [(''data'', JObj
       [(''note'', JStr ''abc''), (''86'', JArr [JArr [JInt 1, JInt 2], JArr [JInt 3]]),
        (''442'', JInt 7)])])])
     = Some [(''note'', JStr ''abc''), (''86'', JArr [JArr [JInt 1, JInt 2], JArr [JInt 3]]),
             (''442'', JInt 7)] \<and>
   (\<exists>b. async_get_latest_values example_builtins
          (\<lambda>request. Payload (JObj [(''records'', JObj [(''data'', JObj
             [(''note'', JStr ''abc''), (''86'', JArr [JArr [JInt 1, JInt 2], JArr [JInt 3]]),
              (''442'', JInt 7)])])]))
          12345 [86, 442] 0 = Inr b \<and>
        dom b = {86, 442} \<and> b 86 = Some JNull)"
proof -
  have "{i. \<exists>(k, s) \<in> set [(''note'', JStr ''abc''), (''86'', JArr [JArr [JInt 1, JInt 2], JArr [JInt 3]]),
              (''442'', JInt 7)]. int_str example_builtins k = Some i} = {86, 442}"
    by (auto simp: example_builtins_def)
  then show ?thesis
    using extraction_total
      [of "\<lambda>request. Payload (JObj [(''records'', JObj [(''data'', JObj
             [(''note'', JStr ''abc''), (''86'', JArr [JArr [JInt 1, JInt 2], JArr [JInt 3]]),
              (''442'', JInt 7)])])])"
        12345 0 "[86, 442]" _
        "[(''note'', JStr ''abc''), (''86'', JArr [JArr [JInt 1, JInt 2], JArr [JInt 3]]),
          (''442'', JInt 7)]"
        example_builtins "[(''note'', JStr ''abc'')]" "''86''"
        "[JArr [JInt 1, JInt 2], JArr [JInt 3]]" "[(''442'', JInt 7)]" 86]
    by (simp add: data_of_def example_builtins_def)
qed

section \<open>Setup and refresh\<close>

text \<open>
  Claim C6. For every list of active descriptors, the attribute ids handed to the
  coordinator are exactly the union, over the descriptors, of the direct attribute id
  (when there is one) and of the ids of the dependency list, without duplicates; they
  depend on the set of descriptors only, not on their order; and they are the attribute
  ids of the request that the coordinator's update sends.
\<close>

theorem attribute_ids_union:
  "set (attribute_ids_of ds) = (\<Union>d \<in> set ds. set_option (attribute_id d) \<union> set (requires d)) \<and>
   distinct (attribute_ids_of ds) \<and>
   (set ds = set ds' \<longrightarrow> attribute_ids_of ds = attribute_ids_of ds') \<and>
   (descriptions_of (CONF_SENSORS entry) = Inr ds \<longrightarrow>
      (\<exists>c. setup_coordinator entry = Inr c \<and> attribute_ids c = attribute_ids_of ds \<and>
           async_update_data py http c =
             async_update_data py
               (\<lambda>request. http \<lparr>url_installation = installation_id c,
                                 param_instance = device_instance c,
                                 param_attributeIds = attribute_ids_of ds\<rparr>) c))"
proof -
  have "set (attribute_ids_of ds) = (\<Union>d \<in> set ds. set_option (attribute_id d) \<union> set (requires d))"
    by (auto simp: attribute_ids_of_sort set_map_filter)
  moreover have "distinct (attribute_ids_of ds)"
    by (simp add: attribute_ids_of_def)
  moreover have "attribute_ids_of ds = attribute_ids_of ds'" if "set ds = set ds'"
    using that by (simp add: attribute_ids_of_def set_map_filter)
  moreover have "\<exists>c. setup_coordinator entry = Inr c \<and> attribute_ids c = attribute_ids_of ds \<and>
           async_update_data py http c =
             async_update_data py
               (\<lambda>request. http \<lparr>url_installation = installation_id c,
                                 param_instance = device_instance c,
                                 param_attributeIds = attribute_ids_of ds\<rparr>) c"
    if "descriptions_of (CONF_SENSORS entry) = Inr ds"
    using that
    by (simp add: setup_coordinator_def async_update_data_def async_get_latest_values_def)
  ultimately show ?thesis by blast
qed

theorem attribute_ids_union_witness:
  "set [battery_power, battery_voltage, load_power] =
     set [load_power, battery_voltage, battery_power, battery_voltage] \<and>
   attribute_ids_of [battery_power, battery_voltage, load_power] = [81, 82, 242] \<and>
   attribute_ids_of [load_power, battery_voltage, battery_power, battery_voltage] = [81, 82, 242] \<and>
   descriptions_of (CONF_SENSORS \<lparr>CONF_INSTALLATION_ID = 12345, CONF_DEVICE_INSTANCE = None,
      CONF_SENSORS = Some [''battery_power'', ''battery_voltage'', ''load_power'']\<rparr>) =
     Inr [battery_power, battery_voltage, load_power] \<and>
   (\<exists>c. setup_coordinator \<lparr>CONF_INSTALLATION_ID = 12345, CONF_DEVICE_INSTANCE = None,
      CONF_SENSORS = Some [''battery_power'', ''battery_voltage'', ''load_power'']\<rparr> = Inr c \<and>
      attribute_ids c = [81, 82, 242])"
proof -
  have s: "set [battery_power, battery_voltage, load_power] =
     set [load_power, battery_voltage, battery_power, battery_voltage]"
    by auto
  have a: "attribute_ids_of [battery_power, battery_voltage, load_power] = [81, 82, 242]"
    by (simp add: attribute_ids_of_sort description_defs List.map_filter_simps)
  have d: "descriptions_of (Some [''battery_power'', ''battery_voltage'', ''load_power'']) =
     Inr [battery_power, battery_voltage, load_power]"
    by (simp add: descriptions_of_def SENSOR_MAP_def SENSOR_DESCRIPTIONS_def
        List.map_filter_simps description_defs)
  note u = attribute_ids_union
      [of "[battery_power, battery_voltage, load_power]"
        "[load_power, battery_voltage, battery_power, battery_voltage]"
        "\<lparr>CONF_INSTALLATION_ID = 12345, CONF_DEVICE_INSTANCE = None,
          CONF_SENSORS = Some [''battery_power'', ''battery_voltage'', ''load_power'']\<rparr>"
        example_builtins "\<lambda>request. ClientError"]
  from u s have "attribute_ids_of [load_power, battery_voltage, battery_power, battery_voltage] =
      attribute_ids_of [battery_power, battery_voltage, load_power]"
    by simp
  moreover from u d obtain c where
    "setup_coordinator \<lparr>CONF_INSTALLATION_ID = 12345, CONF_DEVICE_INSTANCE = None,
      CONF_SENSORS = Some [''battery_power'', ''battery_voltage'', ''load_power'']\<rparr> = Inr c"
    "attribute_ids c = attribute_ids_of [battery_power, battery_voltage, load_power]"
    by auto
  ultimately show ?thesis
    using s a d by simp
qed



text \<open>
  Claim C8. In every refresh cycle: when the gateway raises the authentication error,
  the update raises \<open>ConfigEntryAuthFailed\<close>, the cycle requires re-authentication, and
  this differs from a transient failure; when the gateway raises the other error of the
  API, the update raises \<open>UpdateFailed\<close>, the cycle fails, the previous snapshot stays,
  and the next tick fetches again; a successful fetch replaces the cached batch by the
  fetched one. After the cycle that requires re-authentication no further cycle runs.
\<close>

theorem refresh_outcomes:
  "(async_get_latest_values py http (installation_id c) (attribute_ids c) (device_instance c)
      = Inl VictronApiAuthError \<longrightarrow>
    async_update_data py http c = Inl ConfigEntryAuthFailed \<and>
    refresh py http c = (c\<lparr>last_update_success := False\<rparr>, ReauthRequired) \<and>
    ticks py (http # rest) c = (c\<lparr>last_update_success := False\<rparr>, [ReauthRequired])) \<and>
   (async_get_latest_values py http (installation_id c) (attribute_ids c) (device_instance c)
      = Inl VictronApiError \<longrightarrow>
    async_update_data py http c = Inl UpdateFailed \<and>
    refresh py http c = (c\<lparr>last_update_success := False\<rparr>, Failed) \<and>
    data (fst (refresh py http c)) = data c \<and>
    (async_get_latest_values py http' (installation_id c) (attribute_ids c) (device_instance c)
       = Inr values' \<longrightarrow>
     ticks py [http, http'] c =
       (c\<lparr>data := Some values', last_update_success := True\<rparr>, [Failed, Ready]))) \<and>
   (async_get_latest_values py http (installation_id c) (attribute_ids c) (device_instance c)
      = Inr values \<longrightarrow>
    async_update_data py http c = Inr values \<and>
    refresh py http c = (c\<lparr>data := Some values, last_update_success := True\<rparr>, Ready)) \<and>
   ConfigEntryAuthFailed \<noteq> UpdateFailed \<and> ReauthRequired \<noteq> Failed"
  by (simp add: async_update_data_def refresh_def)

theorem refresh_outcomes_witness:
  "async_get_latest_values example_builtins (\<lambda>request. ClientResponseError 401) 12345 [81, 82] 0
     = Inl VictronApiAuthError \<and>
   refresh example_builtins (\<lambda>request. ClientResponseError 401) example_coordinator =
     (example_coordinator\<lparr>last_update_success := False\<rparr>, ReauthRequired) \<and>
   ticks example_builtins [\<lambda>request. ClientResponseError 401, \<lambda>request. ClientError]
     example_coordinator =
     (example_coordinator\<lparr>last_update_success := False\<rparr>, [ReauthRequired]) \<and>
   async_get_latest_values example_builtins (\<lambda>request. ClientError) 12345 [81, 82] 0
     = Inl VictronApiError \<and>
   refresh example_builtins (\<lambda>request. ClientError) example_coordinator =
     (example_coordinator\<lparr>last_update_success := False\<rparr>, Failed) \<and>
   async_get_latest_values example_builtins
     (\<lambda>request. Payload (JObj [(''records'', JObj [(''data'', JObj
        [(''81'', JArr [JArr [JInt 1, JFloat (Finite 13)]])])])])) 12345 [81, 82] 0
     = Inr [81 \<mapsto> JFloat (Finite 13)] \<and>
   refresh example_builtins
     (\<lambda>request. Payload (JObj [(''records'', JObj [(''data'', JObj
        [(''81'', JArr [JArr [JInt 1, JFloat (Finite 13)]])])])])) example_coordinator =
     (example_coordinator\<lparr>data := Some [81 \<mapsto> JFloat (Finite 13)], last_update_success := True\<rparr>, Ready) \<and>
   ticks example_builtins
     [\<lambda>request. ClientError,
      \<lambda>request. Payload (JObj [(''records'', JObj [(''data'', JObj
        [(''81'', JArr [JArr [JInt 1, JFloat (Finite 13)]])])])])] example_coordinator =
     (example_coordinator\<lparr>data := Some [81 \<mapsto> JFloat (Finite 13)], last_update_success := True\<rparr>,
      [Failed, Ready])"
proof -
  have c: "installation_id example_coordinator = 12345"
    "attribute_ids example_coordinator = [81, 82]" "device_instance example_coordinator = 0"
    by (simp_all add: example_coordinator_def)
  have auth: "async_get_latest_values example_builtins (\<lambda>request. ClientResponseError 401)
      12345 [81, 82] 0 = Inl VictronApiAuthError"
    by (simp add: async_get_latest_values_def raise_for_def)
  have other: "async_get_latest_values example_builtins (\<lambda>request. ClientError)
      12345 [81, 82] 0 = Inl VictronApiError"
    by (simp add: async_get_latest_values_def)
  have ok: "async_get_latest_values example_builtins
     (\<lambda>request. Payload (JObj [(''records'', JObj [(''data'', JObj
        [(''81'', JArr [JArr [JInt 1, JFloat (Finite 13)]])])])])) 12345 [81, 82] 0
     = Inr [81 \<mapsto> JFloat (Finite 13)]"
    by (simp add: async_get_latest_values_def obj_get_def example_builtins_def latest_value_def)
  note auth_cycle = refresh_outcomes
      [of example_builtins "\<lambda>request. ClientResponseError 401" example_coordinator
        "[\<lambda>request. ClientError]", unfolded c]
  note failed_cycle = refresh_outcomes
      [of example_builtins "\<lambda>request. ClientError" example_coordinator _
        "\<lambda>request. Payload (JObj [(''records'', JObj [(''data'', JObj
           [(''81'', JArr [JArr [JInt 1, JFloat (Finite 13)]])])])])" "[81 \<mapsto> JFloat (Finite 13)]",
        unfolded c]
  note ready_cycle = refresh_outcomes
      [of example_builtins
        "\<lambda>request. Payload (JObj [(''records'', JObj [(''data'', JObj
           [(''81'', JArr [JArr [JInt 1, JFloat (Finite 13)]])])])])" example_coordinator _ _ _
        "[81 \<mapsto> JFloat (Finite 13)]",
        unfolded c]
  from auth_cycle auth failed_cycle other ready_cycle ok show ?thesis
    by blast
qed

text \<open>
  Claim C9. For every configured list of enabled metric keys, the keys that the catalog
  does not hold are filtered out; and when the option is unset or empty, or no key of it
  is in the catalog, the active descriptors are the whole catalog in its declared order,
  with no error and never an empty list.
\<close>

theorem descriptions_fallback:
  "descriptions_of None = Inr SENSOR_DESCRIPTIONS \<and>
   descriptions_of (Some []) = Inr SENSOR_DESCRIPTIONS \<and>
   ((\<forall>k \<in> set ks. k \<notin> set DEFAULT_SENSOR_KEYS) \<longrightarrow>
      descriptions_of (Some ks) = Inr SENSOR_DESCRIPTIONS) \<and>
   ((\<exists>k \<in> set ks. k \<in> set DEFAULT_SENSOR_KEYS) \<longrightarrow>
      (\<exists>ds. descriptions_of (Some ks) = Inr ds \<and> ds \<noteq> [] \<and>
            map key ds = filter (\<lambda>k. k \<in> set DEFAULT_SENSOR_KEYS) ks \<and>
            (\<forall>d \<in> set ds. SENSOR_MAP (key d) = Some d))) \<and>
   map key SENSOR_DESCRIPTIONS = DEFAULT_SENSOR_KEYS \<and>
   SENSOR_DESCRIPTIONS \<noteq> []"
proof -
  have none: "descriptions_of None = Inr SENSOR_DESCRIPTIONS"
    by (simp add: descriptions_of_eq map_filter_default)
  have nil: "descriptions_of (Some []) = Inr SENSOR_DESCRIPTIONS"
    by (simp add: descriptions_of_eq List.map_filter_simps)
  have unknown: "descriptions_of (Some ks) = Inr SENSOR_DESCRIPTIONS"
    if "\<forall>k \<in> set ks. k \<notin> set DEFAULT_SENSOR_KEYS"
  proof -
    from that have "\<forall>k \<in> set ks. SENSOR_MAP k = None"
      using SENSOR_MAP_dom by blast
    then have "List.map_filter SENSOR_MAP ks = []"
      by (simp add: map_filter_Nil_iff)
    then show ?thesis by (simp add: descriptions_of_eq)
  qed
  have known: "\<exists>ds. descriptions_of (Some ks) = Inr ds \<and> ds \<noteq> [] \<and>
            map key ds = filter (\<lambda>k. k \<in> set DEFAULT_SENSOR_KEYS) ks \<and>
            (\<forall>d \<in> set ds. SENSOR_MAP (key d) = Some d)"
    if "\<exists>k \<in> set ks. k \<in> set DEFAULT_SENSOR_KEYS"
  proof -
    let ?ds = "List.map_filter SENSOR_MAP ks"
    from that have "\<exists>k \<in> set ks. SENSOR_MAP k \<noteq> None"
      using SENSOR_MAP_dom by blast
    then have ne: "?ds \<noteq> []"
      by (simp add: map_filter_Nil_iff)
    then have "descriptions_of (Some ks) = Inr ?ds"
      by (simp add: descriptions_of_eq)
    moreover have "\<forall>d \<in> set ?ds. SENSOR_MAP (key d) = Some d"
      by (auto simp: set_map_filter dest: SENSOR_MAP_key)
    ultimately show ?thesis
      using ne map_key_map_filter by blast
  qed
  have "map key SENSOR_DESCRIPTIONS = DEFAULT_SENSOR_KEYS" "SENSOR_DESCRIPTIONS \<noteq> []"
    by (simp_all add: DEFAULT_SENSOR_KEYS_def SENSOR_DESCRIPTIONS_def)
  with none nil unknown known show ?thesis by blast
qed

theorem descriptions_fallback_witness:
  "descriptions_of (Some [''bogus'', ''nope'']) = Inr SENSOR_DESCRIPTIONS \<and>
   (\<exists>ds. descriptions_of (Some [''bogus'', ''load_power'', ''battery_state'']) = Inr ds \<and>
         map key ds = [''load_power'', ''battery_state''])"
proof -
  have keys: "''bogus'' \<notin> set DEFAULT_SENSOR_KEYS" "''nope'' \<notin> set DEFAULT_SENSOR_KEYS"
    "''load_power'' \<in> set DEFAULT_SENSOR_KEYS" "''battery_state'' \<in> set DEFAULT_SENSOR_KEYS"
    by (simp_all add: DEFAULT_SENSOR_KEYS_def SENSOR_DESCRIPTIONS_def description_defs)
  show ?thesis
    using keys descriptions_fallback [of "[''bogus'', ''nope'']"]
      descriptions_fallback [of "[''bogus'', ''load_power'', ''battery_state'']"]
    by auto
qed

end
